theory Spec2Isabelle
  imports Complex_Main
begin

section \<open>The global tombstone policy of CrossWatch (cw_platform/gmt_policy.py)\<close>

text \<open>
  The module decides whether a write to a provider is suppressed because the opposite,
  negative event was recorded for the same item a short time ago. It is dynamically typed
  Python: the entity, the configuration and everything a store returns are arbitrary
  objects, and the code probes them with \<^verbatim>\<open>isinstance\<close>, \<^verbatim>\<open>callable\<close>, truthiness
  and \<^verbatim>\<open>int()\<close>. The embedding keeps that: values are a datatype of Python objects, every
  implicit failure (\<^verbatim>\<open>.get\<close> on a value that has none, \<^verbatim>\<open>.lower()\<close> on a non-string,
  \<^verbatim>\<open>int()\<close> of something that is not a number) is an \<open>Inl\<close> result, and the calls
  made on the store are returned as a log beside the decision.
\<close>

subsection \<open>Python values\<close>

text \<open>
  \<open>exn\<close> ranges over instances of Python's \<^verbatim>\<open>Exception\<close>, the class the handler of
  \<^verbatim>\<open>should_suppress_write\<close> names. \<open>StoreError\<close> is any exception of the host's store that
  is none of the built-in ones.
\<close>

datatype exn = AttributeError | TypeError | ValueError | OverflowError | StoreError string

text \<open>
  A float is abstracted to the real number it denotes, or one of the three special values;
  the code only truncates floats (\<^verbatim>\<open>int(x)\<close>) and compares them.
\<close>

datatype pyfloat = Finite real | NaN | PosInf | NegInf

text \<open>
  \<open>PDict\<close> is a \<^verbatim>\<open>dict\<close> with string keys, as an association list in which the first
  entry of a key counts. \<open>PObj t s\<close> is any other object (a list, a tuple, an instance of a
  class of the host): the code observes only its truthiness \<open>t\<close> and the text \<open>s\<close> that
  \<^verbatim>\<open>str()\<close> gives for it; it has no \<^verbatim>\<open>get\<close> and no \<^verbatim>\<open>lower\<close>, is not callable
  and \<^verbatim>\<open>int()\<close> rejects it.
\<close>

datatype pyval =
    PNone
  | PBool bool
  | PInt int
  | PFloat pyfloat
  | PStr string
  | PDict "(string \<times> pyval) list"
  | PObj bool string

text \<open>Truthiness, as \<^verbatim>\<open>if v\<close> and \<^verbatim>\<open>v or d\<close> test it.\<close>

fun truthy :: "pyval \<Rightarrow> bool" where
  "truthy PNone = False"
| "truthy (PBool b) = b"
| "truthy (PInt n) = (n \<noteq> 0)"
| "truthy (PFloat (Finite r)) = (r \<noteq> 0)"
| "truthy (PFloat _) = True"
| "truthy (PStr s) = (s \<noteq> [])"
| "truthy (PDict m) = (m \<noteq> [])"
| "truthy (PObj t _) = t"

definition py_or :: "pyval \<Rightarrow> pyval \<Rightarrow> pyval" where
  \<comment> \<open>\<^verbatim>\<open>a or d\<close>\<close>
  "py_or a d = (if truthy a then a else d)"

text \<open>\<^verbatim>\<open>x.get(k)\<close>: only a mapping has the method; a missing key gives \<^verbatim>\<open>None\<close>.\<close>

definition py_get :: "pyval \<Rightarrow> string \<Rightarrow> exn + pyval" where
  "py_get x k =
     (case x of
        PDict m \<Rightarrow> Inr (case map_of m k of None \<Rightarrow> PNone | Some v \<Rightarrow> v)
      | _ \<Rightarrow> Inl AttributeError)"

subsection \<open>Strings\<close>

text \<open>
  Strings are lists of 8-bit characters. \<open>lower\<close> maps the ASCII capitals and \<open>strip\<close>
  removes ASCII white space (the characters \<^verbatim>\<open>str.isspace\<close> accepts below 128); Python's
  case mapping of letters beyond ASCII is not modelled.
\<close>

definition lower_char :: "char \<Rightarrow> char" where
  "lower_char c =
     (case map_of (zip ''ABCDEFGHIJKLMNOPQRSTUVWXYZ'' ''abcdefghijklmnopqrstuvwxyz'') c of
        Some d \<Rightarrow> d
      | None \<Rightarrow> c)"

definition lower :: "string \<Rightarrow> string" where
  "lower s = map lower_char s"

definition is_space :: "char \<Rightarrow> bool" where
  "is_space c = (c \<in> set [CHR 0x09, CHR 0x0A, CHR 0x0B, CHR 0x0C, CHR 0x0D,
                           CHR 0x1C, CHR 0x1D, CHR 0x1E, CHR 0x1F, CHR 0x20])"

definition strip :: "string \<Rightarrow> string" where
  "strip s = rev (dropWhile is_space (rev (dropWhile is_space s)))"

text \<open>\<^verbatim>\<open>x.lower()\<close> on an arbitrary value: only a string has the method.\<close>

definition py_lower :: "pyval \<Rightarrow> exn + string" where
  "py_lower x = (case x of PStr s \<Rightarrow> Inr (lower s) | _ \<Rightarrow> Inl AttributeError)"

text \<open>Decimal numerals, for \<^verbatim>\<open>str(n)\<close> of an integer and for \<^verbatim>\<open>int(s)\<close> of a string.\<close>

definition digit_char :: "nat \<Rightarrow> char" where
  "digit_char d = ''0123456789'' ! d"

definition digit_val :: "char \<Rightarrow> nat option" where
  "digit_val c = map_of (zip ''0123456789'' [0, 1, 2, 3, 4, 5, 6, 7, 8, 9]) c"

fun dec_nat :: "nat \<Rightarrow> string" where
  "dec_nat n = (if n < 10 then [digit_char n] else dec_nat (n div 10) @ [digit_char (n mod 10)])"

declare dec_nat.simps [simp del]

definition dec_int :: "int \<Rightarrow> string" where
  "dec_int i = (if i < 0 then CHR ''-'' # dec_nat (nat (- i)) else dec_nat (nat i))"

text \<open>
  \<^verbatim>\<open>str(v)\<close>, which is also what an f-string field without a format gives. The texts of
  \<^verbatim>\<open>None\<close>, booleans, integers and strings are fixed; the text of a float or of a
  \<^verbatim>\<open>dict\<close> is Python's \<^verbatim>\<open>repr\<close>, which is not part of the module and is taken as the
  parameter \<open>R\<close>.
\<close>

definition py_str :: "(pyval \<Rightarrow> string) \<Rightarrow> pyval \<Rightarrow> string" where
  "py_str R v =
     (case v of
        PNone \<Rightarrow> ''None''
      | PBool b \<Rightarrow> (if b then ''True'' else ''False'')
      | PInt n \<Rightarrow> dec_int n
      | PStr s \<Rightarrow> s
      | PObj _ s \<Rightarrow> s
      | _ \<Rightarrow> R v)"

text \<open>
  \<^verbatim>\<open>int(v)\<close>: a float is truncated toward zero, \<^verbatim>\<open>nan\<close> raises \<^verbatim>\<open>ValueError\<close> and
  an infinity \<^verbatim>\<open>OverflowError\<close>; a string is parsed as an optionally signed decimal
  numeral, with single underscores between digits and white space around it.
\<close>

definition trunc :: "real \<Rightarrow> int" where
  "trunc r = (if 0 \<le> r then \<lfloor>r\<rfloor> else \<lceil>r\<rceil>)"

definition numeral_ok :: "string \<Rightarrow> bool" where
  "numeral_ok b =
     (b \<noteq> [] \<and> digit_val (hd b) \<noteq> None \<and> digit_val (last b) \<noteq> None
      \<and> list_all (\<lambda>c. c = CHR ''_'' \<or> digit_val c \<noteq> None) b
      \<and> list_all (\<lambda>(c, d). \<not> (c = CHR ''_'' \<and> d = CHR ''_'')) (zip b (tl b)))"

definition numeral_val :: "string \<Rightarrow> int" where
  "numeral_val b =
     foldl (\<lambda>a c. a * 10 + int (case digit_val c of Some d \<Rightarrow> d | None \<Rightarrow> 0)) 0
       (filter (\<lambda>c. c \<noteq> CHR ''_'') b)"

definition int_of_str :: "string \<Rightarrow> exn + int" where
  "int_of_str s =
     (let t = strip s;
          neg = (t \<noteq> [] \<and> hd t = CHR ''-'');
          b = (if t \<noteq> [] \<and> (hd t = CHR ''-'' \<or> hd t = CHR ''+'') then tl t else t)
      in if numeral_ok b then Inr (if neg then - numeral_val b else numeral_val b)
         else Inl ValueError)"

fun py_int :: "pyval \<Rightarrow> exn + int" where
  "py_int (PInt n) = Inr n"
| "py_int (PBool b) = Inr (if b then 1 else 0)"
| "py_int (PFloat (Finite r)) = Inr (trunc r)"
| "py_int (PFloat NaN) = Inl ValueError"
| "py_int (PFloat _) = Inl OverflowError"
| "py_int (PStr s) = int_of_str s"
| "py_int _ = Inl TypeError"

subsection \<open>Operation relationships\<close>

text \<open>
  The parameters annotated \<^verbatim>\<open>str\<close> are guarded with \<^verbatim>\<open>(op or "")\<close>, so that a missing
  argument (\<^verbatim>\<open>None\<close>) counts as the empty string: they are \<open>string option\<close> here.
\<close>

definition or_empty :: "string option \<Rightarrow> string" where
  \<comment> \<open>\<^verbatim>\<open>(s or "")\<close>\<close>
  "or_empty s = (case s of None \<Rightarrow> [] | Some t \<Rightarrow> t)"

definition OPPOSITE :: "(string \<times> string) list" where
  "OPPOSITE =
     [(''add'', ''remove''), (''remove'', ''add''),
      (''rate'', ''unrate''), (''unrate'', ''rate''),
      (''scrobble'', ''unscrobble''), (''unscrobble'', ''scrobble'')]"

definition NEGATIVE_OPS :: "string set" where
  "NEGATIVE_OPS = {''remove'', ''unrate'', ''unscrobble''}"

definition opposing :: "string option \<Rightarrow> string" where
  "opposing op =
     (case map_of OPPOSITE (lower (or_empty op)) of
        Some d \<Rightarrow> d
      | None \<Rightarrow> lower (or_empty op))"

definition is_negative :: "string option \<Rightarrow> bool" where
  "is_negative op = (lower (or_empty op) \<in> NEGATIVE_OPS)"

subsection \<open>Event normalization\<close>

definition negative_event_key :: "string option \<Rightarrow> string option \<Rightarrow> string" where
  "negative_event_key feature op =
     (let feat = lower (or_empty feature);
          _ = lower (or_empty op)
      in if feat = ''ratings'' then ''unrate''
         else if feat = ''history'' then ''unscrobble''
         else ''remove'')"

subsection \<open>Canonical identity\<close>

text \<open>
  The module first tries to import \<^verbatim>\<open>canonical_key\<close> from \<^verbatim>\<open>cw_platform.id_map\<close> and
  defines the function below when that fails. This is the local definition, the only one in
  the file.
\<close>

definition ID_KEYS :: "string list" where
  "ID_KEYS = [''tmdb'', ''imdb'', ''tvdb'', ''trakt'', ''plex'', ''guid'', ''slug'']"

text \<open>The loop over \<^verbatim>\<open>_ID_KEYS\<close>: the first key whose value is truthy gives the result.\<close>

fun first_id :: "(pyval \<Rightarrow> string) \<Rightarrow> pyval \<Rightarrow> string list \<Rightarrow> exn + string option" where
  "first_id R ids [] = Inr None"
| "first_id R ids (k # ks) =
     (case py_get ids k of
        Inl e \<Rightarrow> Inl e
      | Inr v \<Rightarrow>
          if truthy v then Inr (Some (k @ '':'' @ lower (py_str R v)))
          else first_id R ids ks)"

text \<open>The last four lines of the function: the key from type, title and year.\<close>

definition fallback_key :: "(pyval \<Rightarrow> string) \<Rightarrow> pyval \<Rightarrow> exn + string" where
  "fallback_key R item =
     (case py_get item ''type'' of
        Inl e \<Rightarrow> Inl e
      | Inr ty \<Rightarrow>
     (case py_lower (py_or ty (PStr [])) of
        Inl e \<Rightarrow> Inl e
      | Inr t \<Rightarrow>
     (case py_get item ''title'' of
        Inl e \<Rightarrow> Inl e
      | Inr title \<Rightarrow>
     (case py_get item ''year'' of
        Inl e \<Rightarrow> Inl e
      | Inr year \<Rightarrow>
          let ttl = lower (strip (py_str R (py_or title (PStr []))));
              yr = py_or year (PStr [])
          in Inr (t @ ''|title:'' @ ttl @ ''|year:'' @ py_str R yr)))))"

definition canonical_key :: "(pyval \<Rightarrow> string) \<Rightarrow> pyval \<Rightarrow> exn + string" where
  "canonical_key R item =
     (case py_get item ''ids'' of
        Inl e \<Rightarrow> Inl e
      | Inr i \<Rightarrow>
          let ids = py_or i (PDict [])
          in (case first_id R ids ID_KEYS of
                Inl e \<Rightarrow> Inl e
              | Inr (Some k) \<Rightarrow> Inr k
              | Inr None \<Rightarrow> fallback_key R item))"

subsection \<open>TTL policy\<close>

text \<open>The loop of \<^verbatim>\<open>_read\<close> over the path, from the current value \<open>cur\<close>.\<close>

fun read_loop :: "pyval \<Rightarrow> string list \<Rightarrow> pyval \<Rightarrow> pyval" where
  "read_loop cur [] dflt = cur"
| "read_loop cur (key # path) dflt =
     (case cur of
        PDict m \<Rightarrow>
          (case map_of m key of
             None \<Rightarrow> dflt
           | Some PNone \<Rightarrow> dflt
           | Some v \<Rightarrow> read_loop v path dflt)
      | _ \<Rightarrow> dflt)"

definition read :: "pyval \<Rightarrow> string list \<Rightarrow> pyval \<Rightarrow> pyval" where
  "read cfg path dflt = read_loop (py_or cfg (PDict [])) path dflt"

definition is_number :: "pyval \<Rightarrow> bool" where
  \<comment> \<open>\<^verbatim>\<open>isinstance(v, (int, float))\<close>; \<^verbatim>\<open>bool\<close> is a subclass of \<^verbatim>\<open>int\<close>\<close>
  "is_number v = (case v of PInt _ \<Rightarrow> True | PBool _ \<Rightarrow> True | PFloat _ \<Rightarrow> True | _ \<Rightarrow> False)"

definition defaults_days :: "(string \<times> int) list" where
  "defaults_days = [(''watchlist'', 7), (''ratings'', 3), (''history'', 2), (''playlists'', 7)]"

text \<open>
  One override tier, \<^verbatim>\<open>isinstance(v, (int, float)) and int(v) > 0\<close>: \<open>Inr (Some n)\<close>
  when the tier applies with \<open>n = int(v)\<close>, \<open>Inr None\<close> when it is skipped, \<open>Inl\<close> when
  \<^verbatim>\<open>int(v)\<close> raises.
\<close>

definition override :: "pyval \<Rightarrow> exn + int option" where
  "override v =
     (if is_number v then
        (case py_int v of
           Inl e \<Rightarrow> Inl e
         | Inr n \<Rightarrow> if n > 0 then Inr (Some n) else Inr None)
      else Inr None)"

definition get_quarantine_ttl_sec :: "pyval \<Rightarrow> string option \<Rightarrow> exn + int" where
  "get_quarantine_ttl_sec cfg feature =
     (let feat = lower (or_empty feature);
          sec_override = read cfg [''sync'', ''gmt'', feat @ ''_sec''] PNone
      in case override sec_override of
           Inl e \<Rightarrow> Inl e
         | Inr (Some n) \<Rightarrow> Inr n
         | Inr None \<Rightarrow>
      (let days_override = read cfg [''sync'', ''gmt'', feat @ ''_days''] PNone
       in case override days_override of
            Inl e \<Rightarrow> Inl e
          | Inr (Some n) \<Rightarrow> Inr (n * 24 * 3600)
          | Inr None \<Rightarrow>
      (let global_days = read cfg [''sync'', ''gmt_quarantine_days''] PNone
       in case override global_days of
            Inl e \<Rightarrow> Inl e
          | Inr (Some n) \<Rightarrow> Inr (n * 24 * 3600)
          | Inr None \<Rightarrow>
              Inr ((case map_of defaults_days feat of Some d \<Rightarrow> d | None \<Rightarrow> 7) * 24 * 3600))))"

subsection \<open>The store and the scope\<close>

text \<open>
  The store is an object of the host. The module reads six attributes of it with
  \<^verbatim>\<open>getattr(store, name, None)\<close> and tests each with \<^verbatim>\<open>callable\<close>. An attribute is
  \<open>Missing\<close>, or reading it raises (\<open>Broken\<close>, a property that fails), or it holds a
  value that is not callable, or it is callable. The three configuration accessors are
  called without arguments, so a callable one is given by the outcome of that call; the
  three lookups are functions of their keyword arguments \<^verbatim>\<open>key\<close>, \<^verbatim>\<open>list\<close>, \<^verbatim>\<open>dim\<close>,
  (\<^verbatim>\<open>ttl_sec\<close>,) \<^verbatim>\<open>pair_id\<close>. Each is called at most once in a decision.
\<close>

datatype 'a attr = Missing | Broken exn | Value pyval | Callable 'a

record store =
  cfg :: "(exn + pyval) attr"
  config :: "(exn + pyval) attr"
  get_config :: "(exn + pyval) attr"
  should_suppress_by_key ::
    "(string \<Rightarrow> string \<Rightarrow> string \<Rightarrow> int \<Rightarrow> string option \<Rightarrow> exn + pyval) attr"
  last_negative_ts :: "(string \<Rightarrow> string \<Rightarrow> string \<Rightarrow> string option \<Rightarrow> exn + pyval) attr"
  get :: "(string \<Rightarrow> string \<Rightarrow> string \<Rightarrow> string option \<Rightarrow> exn + pyval) attr"

text \<open>The calls made on the store, in the order they are made.\<close>

datatype call =
    ConfigCall string
  | SuppressByKey string string string int "string option"
  | LastNegativeTs string string string "string option"
  | GetRecord string string string "string option"

record Scope =
  list :: string
  dim :: string

text \<open>The \<^verbatim>\<open>scope\<close> argument: an instance of \<^verbatim>\<open>Scope\<close>, or any other value.\<close>

datatype scope_arg = IsScope Scope | IsValue pyval

definition get_or :: "(string \<times> pyval) list \<Rightarrow> string \<Rightarrow> pyval \<Rightarrow> pyval" where
  \<comment> \<open>\<^verbatim>\<open>m.get(k, d)\<close>\<close>
  "get_or m k d = (case map_of m k of None \<Rightarrow> d | Some v \<Rightarrow> v)"

definition coerce_scope :: "(pyval \<Rightarrow> string) \<Rightarrow> scope_arg \<Rightarrow> exn + string \<times> string" where
  "coerce_scope R scope =
     (case scope of
        IsScope s \<Rightarrow> Inr (list s, dim s)
      | IsValue (PDict m) \<Rightarrow>
          Inr (lower (py_str R (get_or m ''list'' (PStr []))),
               lower (py_str R (get_or m ''dim'' (PStr []))))
      | IsValue _ \<Rightarrow> Inl TypeError)"

text \<open>
  The loop of \<^verbatim>\<open>_cfg_from_store\<close> over the three attribute names. Its own handler
  swallows whatever reading or calling an attribute raises and goes on to the next name.
\<close>

fun cfg_loop :: "(string \<times> (exn + pyval) attr) list \<Rightarrow> pyval \<times> call list" where
  "cfg_loop [] = (PNone, [])"
| "cfg_loop ((name, a) # rest) =
     (case a of
        Callable r \<Rightarrow>
          (case r of
             Inr v \<Rightarrow> (v, [ConfigCall name])
           | Inl e \<Rightarrow> (let (v, calls) = cfg_loop rest in (v, ConfigCall name # calls)))
      | Value (PDict m) \<Rightarrow> (PDict m, [])
      | _ \<Rightarrow> cfg_loop rest)"

definition cfg_from_store :: "store \<Rightarrow> pyval \<times> call list" where
  "cfg_from_store s =
     cfg_loop [(''cfg'', cfg s), (''config'', config s), (''get_config'', get_config s)]"

subsection \<open>The suppression predicate\<close>

text \<open>
  The body of the \<^verbatim>\<open>try\<close> block gives \<open>Inl e\<close> when it raises, \<open>Inr (Some b)\<close> when it
  returns \<open>b\<close> and \<open>Inr None\<close> when it runs to its end without returning. \<open>now\<close> is the
  value of \<^verbatim>\<open>time.time()\<close>. The block is cut at its two comments: the generic lookup,
  the timestamp lookup that falls through to it, and the part before them.
\<close>

definition recent :: "real \<Rightarrow> pyval \<Rightarrow> int \<Rightarrow> exn + bool option" where
  \<comment> \<open>\<^verbatim>\<open>return (time.time() - int(ts)) < ttl\<close>\<close>
  "recent now ts ttl =
     (case py_int ts of
        Inl e \<Rightarrow> Inl e
      | Inr t \<Rightarrow> Inr (Some (now - real_of_int t < real_of_int ttl)))"

definition generic_lookup ::
  "store \<Rightarrow> string \<Rightarrow> string \<Rightarrow> string \<Rightarrow> string option \<Rightarrow> int \<Rightarrow> real
   \<Rightarrow> (exn + bool option) \<times> call list" where
  "generic_lookup s key feat want_dim pair_id ttl now =
     (case get s of
        Broken e \<Rightarrow> (Inl e, [])
      | Callable getrec \<Rightarrow>
          (case getrec key feat want_dim pair_id of
             Inl e \<Rightarrow> Inl e
           | Inr (PDict m) \<Rightarrow>
               (case map_of m ''ts'' of
                  Some ts \<Rightarrow> recent now ts ttl
                | None \<Rightarrow> Inr None)
           | Inr _ \<Rightarrow> Inr None,
           [GetRecord key feat want_dim pair_id])
      | _ \<Rightarrow> (Inr None, []))"

definition timestamp_lookup ::
  "store \<Rightarrow> string \<Rightarrow> string \<Rightarrow> string \<Rightarrow> string option \<Rightarrow> int \<Rightarrow> real
   \<Rightarrow> (exn + bool option) \<times> call list" where
  "timestamp_lookup s key feat want_dim pair_id ttl now =
     (case last_negative_ts s of
        Broken e \<Rightarrow> (Inl e, [])
      | Callable last_ts \<Rightarrow>
          (case last_ts key feat want_dim pair_id of
             Inl e \<Rightarrow> (Inl e, [LastNegativeTs key feat want_dim pair_id])
           | Inr PNone \<Rightarrow>
               (let (r, calls) = generic_lookup s key feat want_dim pair_id ttl now
                in (r, LastNegativeTs key feat want_dim pair_id # calls))
           | Inr ts \<Rightarrow> (recent now ts ttl, [LastNegativeTs key feat want_dim pair_id]))
      | _ \<Rightarrow> generic_lookup s key feat want_dim pair_id ttl now)"

definition resolve_ttl :: "int option \<Rightarrow> pyval \<Rightarrow> string \<Rightarrow> exn + int" where
  \<comment> \<open>\<^verbatim>\<open>int(ttl_sec or get_quarantine_ttl_sec(cfg, feat))\<close>\<close>
  "resolve_ttl ttl_sec cfgv feat =
     (case ttl_sec of
        Some n \<Rightarrow> if n \<noteq> 0 then Inr n else get_quarantine_ttl_sec cfgv (Some feat)
      | None \<Rightarrow> get_quarantine_ttl_sec cfgv (Some feat))"

definition try_block ::
  "(pyval \<Rightarrow> string) \<Rightarrow> store \<Rightarrow> pyval \<Rightarrow> scope_arg \<Rightarrow> string option \<Rightarrow> int option \<Rightarrow> real
   \<Rightarrow> (exn + bool option) \<times> call list" where
  "try_block R s entity scope pair_id ttl_sec now =
     (case coerce_scope R scope of
        Inl e \<Rightarrow> (Inl e, [])
      | Inr (feat, write_dim) \<Rightarrow>
     (case canonical_key R entity of
        Inl e \<Rightarrow> (Inl e, [])
      | Inr key \<Rightarrow>
     (let (cfgv, calls) = cfg_from_store s
      in case resolve_ttl ttl_sec cfgv feat of
           Inl e \<Rightarrow> (Inl e, calls)
         | Inr ttl \<Rightarrow>
     (let want_dim = opposing (Some write_dim)
      in case should_suppress_by_key s of
           Broken e \<Rightarrow> (Inl e, calls)
         | Callable pred \<Rightarrow>
             (case pred key feat want_dim ttl pair_id of
                Inl e \<Rightarrow> Inl e
              | Inr v \<Rightarrow> Inr (Some (truthy v)),
              calls @ [SuppressByKey key feat want_dim ttl pair_id])
         | _ \<Rightarrow>
             (let (r, calls') = timestamp_lookup s key feat want_dim pair_id ttl now
              in (r, calls @ calls'))))))"

text \<open>
  The function: whatever the block raises is caught and gives \<^verbatim>\<open>False\<close>, and so does
  a block that ends without returning. The result is the decision and the log of store
  calls.
\<close>

definition should_suppress_write ::
  "(pyval \<Rightarrow> string) \<Rightarrow> store \<Rightarrow> pyval \<Rightarrow> scope_arg \<Rightarrow> string option \<Rightarrow> int option \<Rightarrow> real
   \<Rightarrow> (exn + bool) \<times> call list" where
  "should_suppress_write R s entity scope pair_id ttl_sec now =
     (case try_block R s entity scope pair_id ttl_sec now of
        (Inl e, calls) \<Rightarrow> (Inr False, calls)
      | (Inr (Some b), calls) \<Rightarrow> (Inr b, calls)
      | (Inr None, calls) \<Rightarrow> (Inr False, calls))"

section \<open>Vocabulary of the properties\<close>

text \<open>
  The definitions of this section are not taken from the module: they name the conditions
  and the expected results that the properties below speak of.
\<close>

text \<open>What \<^verbatim>\<open>getattr\<close> and \<^verbatim>\<open>callable\<close> tell about an attribute of the store.\<close>

fun callable :: "'a attr \<Rightarrow> bool" where
  "callable (Callable _) = True"
| "callable _ = False"

fun unsupported :: "'a attr \<Rightarrow> bool" where
  \<comment> \<open>reading it gives a value that is not callable\<close>
  "unsupported Missing = True"
| "unsupported (Value _) = True"
| "unsupported _ = False"

fun is_dict :: "pyval \<Rightarrow> bool" where
  "is_dict (PDict _) = True"
| "is_dict _ = False"





text \<open>
  The whole seconds or days that an override value contributes: the value of a number
  truncated toward zero when that is positive, nothing otherwise.
\<close>

fun effective :: "pyval \<Rightarrow> int option" where
  "effective (PInt n) = (if n > 0 then Some n else None)"
| "effective (PBool b) = (if b then Some 1 else None)"
| "effective (PFloat (Finite r)) = (if trunc r > 0 then Some (trunc r) else None)"
| "effective _ = None"

definition non_finite :: "pyval \<Rightarrow> bool" where
  "non_finite v = (v = PFloat NaN \<or> v = PFloat PosInf \<or> v = PFloat NegInf)"

definition default_days :: "string \<Rightarrow> int" where
  "default_days feat =
     (if feat = ''watchlist'' then 7
      else if feat = ''ratings'' then 3
      else if feat = ''history'' then 2
      else if feat = ''playlists'' then 7
      else 7)"

text \<open>A store all of whose attributes are callable and raise \<open>e\<close> when called.\<close>

definition faulty_store :: "exn \<Rightarrow> store" where
  "faulty_store e =
     \<lparr>cfg = Callable (Inl e), config = Callable (Inl e), get_config = Callable (Inl e),
      should_suppress_by_key = Callable (\<lambda>_ _ _ _ _. Inl e),
      last_negative_ts = Callable (\<lambda>_ _ _ _. Inl e),
      get = Callable (\<lambda>_ _ _ _. Inl e)\<rparr>"

text \<open>A store with no attribute at all, and the rendering used in the examples.\<close>

definition bare_store :: store where
  "bare_store =
     \<lparr>cfg = Missing, config = Missing, get_config = Missing,
      should_suppress_by_key = Missing, last_negative_ts = Missing, get = Missing\<rparr>"

definition no_repr :: "pyval \<Rightarrow> string" where
  "no_repr v = []"


text \<open>
  Two configurations: the one of the precedence example, and one whose per-feature days
  override for ratings is one day and a half.
\<close>

definition precedence_cfg :: pyval where
  "precedence_cfg =
     PDict [(''sync'', PDict [(''gmt_quarantine_days'', PInt 5),
                             (''gmt'', PDict [(''ratings_days'', PInt 2),
                                              (''ratings_sec'', PInt 10)])])]"

definition fraction_cfg :: pyval where
  "fraction_cfg =
     PDict [(''sync'', PDict [(''gmt'', PDict [(''ratings_days'', PFloat (Finite (3 / 2)))])])]"

text \<open>
  The decision read from a timestamp value, and from what the generic lookup returned:
  \<^verbatim>\<open>now - int(ts) < ttl\<close> when there is a timestamp that \<^verbatim>\<open>int()\<close> accepts, false
  otherwise.
\<close>

definition timestamp_recent :: "real \<Rightarrow> int \<Rightarrow> pyval \<Rightarrow> bool" where
  "timestamp_recent now ttl v =
     (case py_int v of
        Inl _ \<Rightarrow> False
      | Inr t \<Rightarrow> now - real_of_int t < real_of_int ttl)"

definition record_recent :: "real \<Rightarrow> int \<Rightarrow> exn + pyval \<Rightarrow> bool" where
  "record_recent now ttl r =
     (case r of
        Inr (PDict m) \<Rightarrow>
          (case map_of m ''ts'' of
             Some v \<Rightarrow> timestamp_recent now ttl v
           | None \<Rightarrow> False)
      | _ \<Rightarrow> False)"

text \<open>
  Stores for the examples: one that implements the direct predicate and the generic
  lookup, one that implements only the timestamp lookup, and one whose timestamp lookup
  finds nothing while its generic lookup finds a record.
\<close>

definition pred_store :: "pyval \<Rightarrow> pyval \<Rightarrow> store" where
  "pred_store answer rec =
     bare_store\<lparr>should_suppress_by_key := Callable (\<lambda>_ _ _ _ _. Inr answer),
                get := Callable (\<lambda>_ _ _ _. Inr rec)\<rparr>"

definition ts_store :: "pyval \<Rightarrow> store" where
  "ts_store ts = bare_store\<lparr>last_negative_ts := Callable (\<lambda>_ _ _ _. Inr ts)\<rparr>"

definition fallthrough_store :: "pyval \<Rightarrow> store" where
  "fallthrough_store rec =
     bare_store\<lparr>last_negative_ts := Callable (\<lambda>_ _ _ _. Inr PNone),
                get := Callable (\<lambda>_ _ _ _. Inr rec)\<rparr>"

text \<open>An entity with a tmdb identifier, and the scope of a rating write.\<close>

definition matrix :: pyval where
  "matrix = PDict [(''ids'', PDict [(''tmdb'', PInt 603)])]"

definition rate_scope :: scope_arg where
  "rate_scope = IsScope \<lparr>list = ''ratings'', dim = ''rate''\<rparr>"


section \<open>Properties\<close>

subsection \<open>Strings and operation relationships\<close>

lemma lower_char_idem: "lower_char (lower_char c) = lower_char c"
  by (simp add: lower_char_def)

lemma lower_idem: "lower (lower s) = lower s"
  by (simp add: lower_def lower_char_idem)

lemma OPPOSITE_partner:
  "(l, d) \<in> set OPPOSITE \<Longrightarrow> lower d = d \<and> map_of OPPOSITE d = Some l"
  by (auto simp: OPPOSITE_def lower_def lower_char_def)

lemma opposing_twice: "opposing (Some (opposing op)) = lower (or_empty op)"
proof (cases "map_of OPPOSITE (lower (or_empty op))")
  case None
  then show ?thesis by (simp add: opposing_def or_empty_def lower_idem)
next
  case (Some d)
  from OPPOSITE_partner [OF map_of_SomeD [OF Some]] Some
  show ?thesis by (simp add: opposing_def or_empty_def)
qed

lemma opposing_table:
  "map (\<lambda>d. opposing (Some d)) [''add'', ''remove'', ''rate'', ''unrate'', ''scrobble'', ''unscrobble'']
   = [''remove'', ''add'', ''unrate'', ''rate'', ''unscrobble'', ''scrobble'']"
  by (simp add: opposing_def OPPOSITE_def lower_def lower_char_def or_empty_def)

lemma opposing_unrecognized:
  "lower (or_empty op) \<notin> set (map fst OPPOSITE) \<Longrightarrow> opposing op = lower (or_empty op)"
proof (cases "map_of OPPOSITE (lower (or_empty op))")
  case None
  then show ?thesis by (simp add: opposing_def)
next
  case (Some d)
  assume "lower (or_empty op) \<notin> set (map fst OPPOSITE)"
  with map_of_SomeD [OF Some] show ?thesis by force
qed

text \<open>
  C8, as stated: \<open>opposing\<close> returns an unrecognized input unchanged. It does not: the
  default of the table lookup is the lower-cased input, so \<^verbatim>\<open>opposing("Foo")\<close> is
  \<^verbatim>\<open>"foo"\<close>.
\<close>

theorem opposing_unrecognized_counterexample:
  "lower ''Foo'' \<notin> set (map fst OPPOSITE) \<and> opposing (Some ''Foo'') \<noteq> ''Foo''"
  by (simp add: opposing_def OPPOSITE_def lower_def lower_char_def or_empty_def)

text \<open>
  C8, amended: \<open>opposing\<close> is total; after case normalization it exchanges add and remove,
  rate and unrate, scrobble and unscrobble; applying it twice gives the lower-cased input,
  so it is an involution on the six dimensions; and for every unrecognized input (a missing
  one included) it returns the lower-cased input.
\<close>

theorem opposing_involutive_lowercased:
  "opposing (Some (opposing op)) = lower (or_empty op)
   \<and> (lower (or_empty op) \<notin> set (map fst OPPOSITE) \<longrightarrow> opposing op = lower (or_empty op))
   \<and> (d \<in> set (map fst OPPOSITE) \<longrightarrow> opposing (Some (opposing (Some d))) = d)
   \<and> map (\<lambda>d. opposing (Some d))
        [''add'', ''remove'', ''rate'', ''unrate'', ''scrobble'', ''unscrobble'']
      = [''remove'', ''add'', ''unrate'', ''rate'', ''unscrobble'', ''scrobble'']"
proof -
  have "opposing (Some (opposing (Some d))) = d" if "d \<in> set (map fst OPPOSITE)"
  proof -
    from that have "lower d = d"
      by (auto simp: OPPOSITE_def lower_def lower_char_def)
    then show ?thesis by (simp add: opposing_twice or_empty_def)
  qed
  then show ?thesis
    using opposing_twice opposing_unrecognized opposing_table by blast
qed

theorem opposing_involutive_lowercased_witness:
  "opposing (Some (opposing (Some ''RATE''))) = ''rate''
   \<and> lower ''Watch'' \<notin> set (map fst OPPOSITE) \<and> opposing (Some ''Watch'') = ''watch''
   \<and> ''unscrobble'' \<in> set (map fst OPPOSITE)
   \<and> opposing (Some (opposing (Some ''unscrobble''))) = ''unscrobble''"
  using opposing_involutive_lowercased [of "Some ''RATE''" "''unscrobble''"]
        opposing_involutive_lowercased [of "Some ''Watch''" "''unscrobble''"]
  by (simp add: OPPOSITE_def lower_def lower_char_def or_empty_def)

text \<open>
  C10: for every feature and every operation verb, missing ones included, the dimension
  that \<open>negative_event_key\<close> returns is classified negative by \<open>is_negative\<close>, and it does
  not depend on the verb.
\<close>

theorem negative_event_key_is_negative:
  "is_negative (Some (negative_event_key feature op))
   \<and> negative_event_key feature op = negative_event_key feature op'"
  by (simp add: negative_event_key_def is_negative_def NEGATIVE_OPS_def lower_def
      lower_char_def or_empty_def Let_def)

theorem negative_event_key_is_negative_witness:
  "is_negative (Some (negative_event_key (Some ''Playlists'') None))
   \<and> negative_event_key (Some ''Playlists'') None = ''remove''
   \<and> negative_event_key (Some ''Playlists'') (Some ''add'') = ''remove''"
  using negative_event_key_is_negative [of "Some ''Playlists''" None "Some ''add''"]
  by (simp add: negative_event_key_def lower_def lower_char_def or_empty_def)

subsection \<open>Canonical identity\<close>













subsection \<open>TTL policy\<close>

lemma override_effective: "\<not> non_finite v \<Longrightarrow> override v = Inr (effective v)"
  by (cases v rule: effective.cases) (auto simp: override_def is_number_def non_finite_def)

lemma effective_positive: "effective v = Some n \<Longrightarrow> 0 < n"
  by (cases v rule: effective.cases) (auto split: if_splits)

lemma defaults_days_lookup:
  "(case map_of defaults_days feat of Some d \<Rightarrow> d | None \<Rightarrow> 7) = default_days feat"
  by (simp add: defaults_days_def default_days_def)

lemma default_days_positive: "0 < default_days feat"
  by (simp add: default_days_def)

text \<open>
  C6, as stated: the per-feature days override times 86400 is the result when there is no
  seconds override. The code truncates the override first: with a days override of 1.5,
  which is a positive number, the result is 86400 and not 1.5 times 86400.
\<close>

theorem ttl_fractional_days_counterexample:
  "read fraction_cfg [''sync'', ''gmt'', ''ratings_sec''] PNone = PNone
   \<and> read fraction_cfg [''sync'', ''gmt'', ''ratings_days''] PNone = PFloat (Finite (3 / 2))
   \<and> get_quarantine_ttl_sec fraction_cfg (Some ''ratings'') = Inr 86400
   \<and> (3 / 2) * 86400 \<noteq> (86400 :: real)"
  by (simp add: get_quarantine_ttl_sec_def fraction_cfg_def read_def py_or_def override_def
      is_number_def lower_def lower_char_def or_empty_def trunc_def)

text \<open>
  C6, amended: for every configuration whose three override values are not a float
  \<^verbatim>\<open>nan\<close> or infinity, and every feature, \<open>get_quarantine_ttl_sec\<close> returns a strictly
  positive integer, the first that applies of: the per-feature seconds override, the
  per-feature days override times 86400, the global days override times 86400, the static
  default (watchlist 7 days, ratings 3, history 2, playlists 7, any other feature 7). An
  override applies when it is a number whose truncation toward zero is positive, and it
  counts with that truncation; a value that is no number, or is zero, negative or below
  one is skipped as absent.
\<close>

theorem get_quarantine_ttl_sec_resolution:
  assumes "feat = lower (or_empty feature)"
      and "sec = read c [''sync'', ''gmt'', feat @ ''_sec''] PNone"
      and "days = read c [''sync'', ''gmt'', feat @ ''_days''] PNone"
      and "glob = read c [''sync'', ''gmt_quarantine_days''] PNone"
      and "\<not> non_finite sec" and "\<not> non_finite days" and "\<not> non_finite glob"
      and "ttl = (case effective sec of
                    Some n \<Rightarrow> n
                  | None \<Rightarrow>
                 (case effective days of
                    Some d \<Rightarrow> d * 86400
                  | None \<Rightarrow>
                 (case effective glob of
                    Some g \<Rightarrow> g * 86400
                  | None \<Rightarrow> default_days feat * 86400)))"
  shows "get_quarantine_ttl_sec c feature = Inr ttl \<and> 0 < ttl"
proof -
  have o1: "override (read c [''sync'', ''gmt'', lower (or_empty feature) @ ''_sec''] PNone)
            = Inr (effective sec)"
    using override_effective [OF assms(5)] assms(1,2) by simp
  have o2: "override (read c [''sync'', ''gmt'', lower (or_empty feature) @ ''_days''] PNone)
            = Inr (effective days)"
    using override_effective [OF assms(6)] assms(1,3) by simp
  have o3: "override (read c [''sync'', ''gmt_quarantine_days''] PNone) = Inr (effective glob)"
    using override_effective [OF assms(7)] assms(4) by simp
  have "get_quarantine_ttl_sec c feature = Inr ttl"
    unfolding get_quarantine_ttl_sec_def Let_def o1 o2 o3 defaults_days_lookup assms(8)
    using assms(1) by (simp split: option.splits)
  moreover have "0 < ttl"
    using assms(8) default_days_positive [of feat]
    by (auto split: option.splits dest: effective_positive)
  ultimately show ?thesis ..
qed

theorem get_quarantine_ttl_sec_resolution_witness:
  "get_quarantine_ttl_sec precedence_cfg (Some ''ratings'') = Inr 10
   \<and> get_quarantine_ttl_sec (PDict []) (Some ''history'') = Inr 172800"
proof -
  have "get_quarantine_ttl_sec precedence_cfg (Some ''ratings'') = Inr 10 \<and> (0::int) < 10"
    by (rule get_quarantine_ttl_sec_resolution
              [where feat = "''ratings''" and sec = "PInt 10" and days = "PInt 2"
                 and glob = "PInt 5"])
       (simp_all add: precedence_cfg_def read_def py_or_def lower_def lower_char_def
          or_empty_def non_finite_def)
  moreover
  have "get_quarantine_ttl_sec (PDict []) (Some ''history'') = Inr 172800 \<and> (0::int) < 172800"
    by (rule get_quarantine_ttl_sec_resolution
              [where feat = "''history''" and sec = PNone and days = PNone and glob = PNone])
       (simp_all add: read_def py_or_def lower_def lower_char_def or_empty_def non_finite_def
          default_days_def)
  ultimately show ?thesis by simp
qed

subsection \<open>The suppression predicate\<close>

lemma ssw_of_try:
  "should_suppress_write R s entity scope pair_id ttl_sec now =
     (case fst (try_block R s entity scope pair_id ttl_sec now) of
        Inr (Some b) \<Rightarrow> Inr b
      | _ \<Rightarrow> Inr False,
      snd (try_block R s entity scope pair_id ttl_sec now))"
  by (simp add: should_suppress_write_def split: prod.splits sum.splits option.splits)


lemma try_scope_fails:
  "coerce_scope R scope = Inl e \<Longrightarrow>
   try_block R s entity scope pair_id ttl_sec now = (Inl e, [])"
  by (simp add: try_block_def)


lemma try_resolved:
  assumes "coerce_scope R scope = Inr (feat, wd)"
      and "canonical_key R entity = Inr key"
  shows "try_block R s entity scope pair_id ttl_sec now =
     (case resolve_ttl ttl_sec (fst (cfg_from_store s)) feat of
        Inl e \<Rightarrow> (Inl e, snd (cfg_from_store s))
      | Inr ttl \<Rightarrow>
         (case should_suppress_by_key s of
            Broken e \<Rightarrow> (Inl e, snd (cfg_from_store s))
          | Callable pred \<Rightarrow>
             (case pred key feat (opposing (Some wd)) ttl pair_id of
                Inl e \<Rightarrow> Inl e
              | Inr v \<Rightarrow> Inr (Some (truthy v)),
              snd (cfg_from_store s) @ [SuppressByKey key feat (opposing (Some wd)) ttl pair_id])
          | _ \<Rightarrow>
             (fst (timestamp_lookup s key feat (opposing (Some wd)) pair_id ttl now),
              snd (cfg_from_store s)
              @ snd (timestamp_lookup s key feat (opposing (Some wd)) pair_id ttl now))))"
  using assms
  by (simp add: try_block_def Let_def split: prod.splits sum.splits attr.splits)

lemma coerce_scope_non_dict: "\<not> is_dict v \<Longrightarrow> coerce_scope R (IsValue v) = Inl TypeError"
  by (cases v) (simp_all add: coerce_scope_def)

lemma recent_decision:
  "(case recent now v ttl of Inr (Some b) \<Rightarrow> Inr b | _ \<Rightarrow> Inr False)
   = (Inr (timestamp_recent now ttl v) :: exn + bool)"
  by (simp add: recent_def timestamp_recent_def split: sum.splits)

lemma generic_unsupported:
  "\<not> callable (get s) \<Longrightarrow>
   (case fst (generic_lookup s key feat want pair_id ttl now) of
      Inr (Some b) \<Rightarrow> Inr b
    | _ \<Rightarrow> Inr False) = (Inr False :: exn + bool)
   \<and> snd (generic_lookup s key feat want pair_id ttl now) = []"
  by (cases "get s") (simp_all add: generic_lookup_def)

lemma generic_called:
  "get s = Callable g \<Longrightarrow>
   (case fst (generic_lookup s key feat want pair_id ttl now) of
      Inr (Some b) \<Rightarrow> Inr b
    | _ \<Rightarrow> Inr False) = (Inr (record_recent now ttl (g key feat want pair_id)) :: exn + bool)
   \<and> snd (generic_lookup s key feat want pair_id ttl now) = [GetRecord key feat want pair_id]"
  by (simp add: generic_lookup_def record_recent_def recent_def timestamp_recent_def
      split: sum.splits pyval.splits option.splits)

lemma timestamp_unsupported:
  "unsupported (last_negative_ts s) \<Longrightarrow>
   timestamp_lookup s key feat want pair_id ttl now
   = generic_lookup s key feat want pair_id ttl now"
  by (cases "last_negative_ts s") (simp_all add: timestamp_lookup_def)

lemma timestamp_value:
  "last_negative_ts s = Callable f \<Longrightarrow> f key feat want pair_id = Inr v \<Longrightarrow> v \<noteq> PNone \<Longrightarrow>
   timestamp_lookup s key feat want pair_id ttl now
   = (recent now v ttl, [LastNegativeTs key feat want pair_id])"
  by (cases v) (simp_all add: timestamp_lookup_def)

lemma timestamp_none:
  "last_negative_ts s = Callable f \<Longrightarrow> f key feat want pair_id = Inr PNone \<Longrightarrow>
   timestamp_lookup s key feat want pair_id ttl now
   = (fst (generic_lookup s key feat want pair_id ttl now),
      LastNegativeTs key feat want pair_id # snd (generic_lookup s key feat want pair_id ttl now))"
  by (simp add: timestamp_lookup_def split: prod.splits)



lemma ssw_lookup:
  assumes "coerce_scope R scope = Inr (feat, wd)"
      and "canonical_key R entity = Inr key"
      and "resolve_ttl ttl_sec (fst (cfg_from_store s)) feat = Inr ttl"
      and "unsupported (should_suppress_by_key s)"
  shows "should_suppress_write R s entity scope pair_id ttl_sec now =
     (case fst (timestamp_lookup s key feat (opposing (Some wd)) pair_id ttl now) of
        Inr (Some b) \<Rightarrow> Inr b
      | _ \<Rightarrow> Inr False,
      snd (cfg_from_store s)
      @ snd (timestamp_lookup s key feat (opposing (Some wd)) pair_id ttl now))"
  using assms(4)
  by (cases "should_suppress_by_key s")
     (simp_all add: ssw_of_try try_resolved [OF assms(1,2)] assms(3))

lemma ssw_direct:
  assumes "coerce_scope R scope = Inr (feat, wd)"
      and "canonical_key R entity = Inr key"
      and "resolve_ttl ttl_sec (fst (cfg_from_store s)) feat = Inr ttl"
      and "should_suppress_by_key s = Callable pred"
  shows "should_suppress_write R s entity scope pair_id ttl_sec now =
     (Inr (case pred key feat (opposing (Some wd)) ttl pair_id of
             Inl e \<Rightarrow> False
           | Inr v \<Rightarrow> truthy v),
      snd (cfg_from_store s) @ [SuppressByKey key feat (opposing (Some wd)) ttl pair_id])"
  by (simp add: ssw_of_try try_resolved [OF assms(1,2)] assms(3,4) split: sum.splits)

lemma resolve_ttl_cases:
  "resolve_ttl ttl_sec c feat =
     (if ttl_sec = None \<or> ttl_sec = Some 0 then get_quarantine_ttl_sec c (Some feat)
      else Inr (case ttl_sec of Some n \<Rightarrow> n | None \<Rightarrow> 0))"
  by (simp add: resolve_ttl_def split: option.splits)

lemma matrix_key: "canonical_key R matrix = Inr ''tmdb:603''"
  by (simp add: matrix_def canonical_key_def py_get_def py_or_def ID_KEYS_def py_str_def
      lower_def lower_char_def dec_int_def dec_nat.simps digit_char_def)

lemma rate_scope_coerced: "coerce_scope R rate_scope = Inr (''ratings'', ''rate'')"
  by (simp add: rate_scope_def coerce_scope_def)

lemma opposing_rate: "opposing (Some ''rate'') = ''unrate''"
  by (simp add: opposing_def OPPOSITE_def lower_def lower_char_def or_empty_def)

lemma ratings_default_ttl: "get_quarantine_ttl_sec PNone (Some ''ratings'') = Inr 259200"
  by (simp add: get_quarantine_ttl_sec_def read_def py_or_def override_def is_number_def
      lower_def lower_char_def or_empty_def defaults_days_def)

lemma example_store_cfg:
  "cfg_from_store bare_store = (PNone, [])"
  "cfg_from_store (pred_store a r) = (PNone, [])"
  "cfg_from_store (ts_store t) = (PNone, [])"
  "cfg_from_store (fallthrough_store r) = (PNone, [])"
  by (simp_all add: cfg_from_store_def bare_store_def pred_store_def ts_store_def
      fallthrough_store_def)

lemma faulty_store_cfg:
  "cfg_from_store (faulty_store e)
   = (PNone, [ConfigCall ''cfg'', ConfigCall ''config'', ConfigCall ''get_config''])"
  by (simp add: cfg_from_store_def faulty_store_def)

text \<open>
  C2, as stated: a scope that is neither a \<^verbatim>\<open>Scope\<close> nor a mapping makes
  \<open>should_suppress_write\<close> raise. It does not: \<open>coerce_scope\<close> raises \<^verbatim>\<open>TypeError\<close>, but
  it is called inside the \<^verbatim>\<open>try\<close> block, whose handler turns the error into
  \<^verbatim>\<open>False\<close>.
\<close>

theorem scope_violation_counterexample:
  "coerce_scope no_repr (IsValue (PInt 5)) = Inl TypeError
   \<and> should_suppress_write no_repr bare_store matrix (IsValue (PInt 5)) None None 0
     = (Inr False, [])"
  by (simp add: coerce_scope_def should_suppress_write_def try_block_def)

text \<open>
  C2, amended: for every scope argument that is neither a \<^verbatim>\<open>Scope\<close> nor a mapping,
  \<open>coerce_scope\<close> raises \<^verbatim>\<open>TypeError\<close>, and \<open>should_suppress_write\<close> catches it like any
  other fault: it returns \<^verbatim>\<open>False\<close> without a call on the store, for every store,
  entity, pair and TTL override.
\<close>

theorem scope_violation_absorbed:
  "\<not> is_dict v \<Longrightarrow>
     coerce_scope R (IsValue v) = Inl TypeError
   \<and> should_suppress_write R s entity (IsValue v) pair_id ttl_sec now = (Inr False, [])"
  by (simp add: coerce_scope_non_dict ssw_of_try try_scope_fails)

theorem scope_violation_absorbed_witness:
  "\<not> is_dict (PStr ''ratings'')
   \<and> coerce_scope no_repr (IsValue (PStr ''ratings'')) = Inl TypeError
   \<and> should_suppress_write no_repr (pred_store (PBool True) PNone) matrix
       (IsValue (PStr ''ratings'')) None None 0 = (Inr False, [])"
  using scope_violation_absorbed
          [of "PStr ''ratings''" no_repr "pred_store (PBool True) PNone" matrix None None 0]
  by simp



text \<open>
  C3, as stated: when the store supports the timestamp lookup and it returns no
  timestamp, the result is false and the generic lookup is not consulted. It is consulted:
  the code returns from the second tier only when the timestamp is not \<^verbatim>\<open>None\<close> and
  otherwise goes on to \<^verbatim>\<open>get\<close>, whose record decides.
\<close>

theorem tier_fallthrough_counterexample:
  "should_suppress_write no_repr (fallthrough_store (PDict [(''ts'', PInt 100)])) matrix
     rate_scope None None 200
   = (Inr True,
      [LastNegativeTs ''tmdb:603'' ''ratings'' ''unrate'' None,
       GetRecord ''tmdb:603'' ''ratings'' ''unrate'' None])"
  by (simp add: should_suppress_write_def try_block_def Let_def rate_scope_coerced matrix_key
      cfg_from_store_def resolve_ttl_def ratings_default_ttl opposing_rate
      timestamp_lookup_def generic_lookup_def recent_def fallthrough_store_def bare_store_def)

text \<open>
  C3, amended: once scope, key and TTL are computed, the store is probed in the order
  direct predicate, timestamp lookup, generic lookup. A callable direct predicate is the
  only lookup called and its truthiness is the result (false when it raises), whatever
  else the store implements. Without it, a callable timestamp lookup that returns a
  timestamp is the only lookup called and decides by \<open>now - int(ts) < ttl\<close>. When the
  timestamp lookup returns no timestamp, or is not supported, the generic lookup is called
  if it is callable and its record decides by the same test (false without a record or a
  timestamp field); if it is not callable the result is false. A store that supports none
  of the three is not called and the result is false.
\<close>

theorem capability_tiering:
  assumes "coerce_scope R scope = Inr (feat, wd)"
      and "canonical_key R entity = Inr key"
      and "resolve_ttl ttl_sec (fst (cfg_from_store s)) feat = Inr ttl"
      and "want = opposing (Some wd)"
  shows "(should_suppress_by_key s = Callable pred \<longrightarrow>
            should_suppress_write R s entity scope pair_id ttl_sec now
            = (Inr (case pred key feat want ttl pair_id of Inl e \<Rightarrow> False | Inr v \<Rightarrow> truthy v),
               snd (cfg_from_store s) @ [SuppressByKey key feat want ttl pair_id]))
       \<and> (unsupported (should_suppress_by_key s) \<and> last_negative_ts s = Callable f
            \<and> f key feat want pair_id = Inr v \<and> v \<noteq> PNone \<longrightarrow>
            should_suppress_write R s entity scope pair_id ttl_sec now
            = (Inr (timestamp_recent now ttl v),
               snd (cfg_from_store s) @ [LastNegativeTs key feat want pair_id]))
       \<and> (unsupported (should_suppress_by_key s) \<and> last_negative_ts s = Callable f
            \<and> f key feat want pair_id = Inr PNone \<and> get s = Callable g \<longrightarrow>
            should_suppress_write R s entity scope pair_id ttl_sec now
            = (Inr (record_recent now ttl (g key feat want pair_id)),
               snd (cfg_from_store s)
               @ [LastNegativeTs key feat want pair_id, GetRecord key feat want pair_id]))
       \<and> (unsupported (should_suppress_by_key s) \<and> last_negative_ts s = Callable f
            \<and> f key feat want pair_id = Inr PNone \<and> \<not> callable (get s) \<longrightarrow>
            should_suppress_write R s entity scope pair_id ttl_sec now
            = (Inr False, snd (cfg_from_store s) @ [LastNegativeTs key feat want pair_id]))
       \<and> (unsupported (should_suppress_by_key s) \<and> unsupported (last_negative_ts s)
            \<and> get s = Callable g \<longrightarrow>
            should_suppress_write R s entity scope pair_id ttl_sec now
            = (Inr (record_recent now ttl (g key feat want pair_id)),
               snd (cfg_from_store s) @ [GetRecord key feat want pair_id]))
       \<and> (unsupported (should_suppress_by_key s) \<and> unsupported (last_negative_ts s)
            \<and> \<not> callable (get s) \<longrightarrow>
            should_suppress_write R s entity scope pair_id ttl_sec now
            = (Inr False, snd (cfg_from_store s)))"
proof -
  note lk = ssw_lookup [OF assms(1-3), of pair_id now, folded assms(4)]
  have t1: "should_suppress_write R s entity scope pair_id ttl_sec now
            = (Inr (case pred key feat want ttl pair_id of Inl e \<Rightarrow> False | Inr v \<Rightarrow> truthy v),
               snd (cfg_from_store s) @ [SuppressByKey key feat want ttl pair_id])"
    if "should_suppress_by_key s = Callable pred"
    using ssw_direct [OF assms(1-3) that, of pair_id now] assms(4) by simp
  have t2: "should_suppress_write R s entity scope pair_id ttl_sec now
            = (Inr (timestamp_recent now ttl v),
               snd (cfg_from_store s) @ [LastNegativeTs key feat want pair_id])"
    if "unsupported (should_suppress_by_key s)" "last_negative_ts s = Callable f"
       "f key feat want pair_id = Inr v" "v \<noteq> PNone"
    using that by (simp add: lk timestamp_value recent_decision)
  have t3: "should_suppress_write R s entity scope pair_id ttl_sec now
            = (Inr (record_recent now ttl (g key feat want pair_id)),
               snd (cfg_from_store s)
               @ [LastNegativeTs key feat want pair_id, GetRecord key feat want pair_id])"
    if "unsupported (should_suppress_by_key s)" "last_negative_ts s = Callable f"
       "f key feat want pair_id = Inr PNone" "get s = Callable g"
    using that by (simp add: lk timestamp_none generic_called)
  have t4: "should_suppress_write R s entity scope pair_id ttl_sec now
            = (Inr False, snd (cfg_from_store s) @ [LastNegativeTs key feat want pair_id])"
    if "unsupported (should_suppress_by_key s)" "last_negative_ts s = Callable f"
       "f key feat want pair_id = Inr PNone" "\<not> callable (get s)"
    using that by (simp add: lk timestamp_none generic_unsupported)
  have t5: "should_suppress_write R s entity scope pair_id ttl_sec now
            = (Inr (record_recent now ttl (g key feat want pair_id)),
               snd (cfg_from_store s) @ [GetRecord key feat want pair_id])"
    if "unsupported (should_suppress_by_key s)" "unsupported (last_negative_ts s)"
       "get s = Callable g"
    using that by (simp add: lk timestamp_unsupported generic_called)
  have t6: "should_suppress_write R s entity scope pair_id ttl_sec now
            = (Inr False, snd (cfg_from_store s))"
    if "unsupported (should_suppress_by_key s)" "unsupported (last_negative_ts s)"
       "\<not> callable (get s)"
    using that by (simp add: lk timestamp_unsupported generic_unsupported)
  from t1 t2 t3 t4 t5 t6 show ?thesis by blast
qed

theorem capability_tiering_witness:
  "should_suppress_write no_repr (pred_store (PBool True) (PDict [(''ts'', PInt 0)])) matrix
     rate_scope None None 200
   = (Inr True, [SuppressByKey ''tmdb:603'' ''ratings'' ''unrate'' 259200 None])
   \<and> should_suppress_write no_repr (ts_store PNone) matrix rate_scope None None 200
     = (Inr False, [LastNegativeTs ''tmdb:603'' ''ratings'' ''unrate'' None])
   \<and> should_suppress_write no_repr bare_store matrix rate_scope None None 200 = (Inr False, [])
   \<and> should_suppress_write no_repr (ts_store (PInt 100)) matrix rate_scope None None 200
     = (Inr True, [LastNegativeTs ''tmdb:603'' ''ratings'' ''unrate'' None])
   \<and> should_suppress_write no_repr (fallthrough_store (PDict [(''ts'', PInt 100)])) matrix
       rate_scope None None 200
     = (Inr True,
        [LastNegativeTs ''tmdb:603'' ''ratings'' ''unrate'' None,
         GetRecord ''tmdb:603'' ''ratings'' ''unrate'' None])"
proof -
  have ttl: "resolve_ttl None (fst (cfg_from_store (pred_store a r))) ''ratings'' = Inr 259200"
            "resolve_ttl None (fst (cfg_from_store (ts_store t))) ''ratings'' = Inr 259200"
            "resolve_ttl None (fst (cfg_from_store bare_store)) ''ratings'' = Inr 259200"
            "resolve_ttl None (fst (cfg_from_store (fallthrough_store r))) ''ratings''
             = Inr 259200"
    for a r t
    by (simp_all add: example_store_cfg resolve_ttl_def ratings_default_ttl)
  have u: "unsupported (should_suppress_by_key (ts_store (PInt 100)))"
          "last_negative_ts (ts_store (PInt 100)) = Callable (\<lambda>_ _ _ _. Inr (PInt 100))"
    by (simp_all add: ts_store_def bare_store_def)
  have w: "unsupported (should_suppress_by_key (fallthrough_store (PDict [(''ts'', PInt 100)])))"
          "last_negative_ts (fallthrough_store (PDict [(''ts'', PInt 100)]))
           = Callable (\<lambda>_ _ _ _. Inr PNone)"
          "get (fallthrough_store (PDict [(''ts'', PInt 100)]))
           = Callable (\<lambda>_ _ _ _. Inr (PDict [(''ts'', PInt 100)]))"
    by (simp_all add: fallthrough_store_def bare_store_def)
  have p: "should_suppress_by_key (pred_store (PBool True) (PDict [(''ts'', PInt 0)]))
           = Callable (\<lambda>_ _ _ _ _. Inr (PBool True))"
    by (simp add: pred_store_def bare_store_def)
  have q: "unsupported (should_suppress_by_key (ts_store PNone))"
          "last_negative_ts (ts_store PNone) = Callable (\<lambda>_ _ _ _. Inr PNone)"
          "\<not> callable (get (ts_store PNone))"
    by (simp_all add: ts_store_def bare_store_def)
  have b: "unsupported (should_suppress_by_key bare_store)"
          "unsupported (last_negative_ts bare_store)" "\<not> callable (get bare_store)"
    by (simp_all add: bare_store_def)
  from capability_tiering
         [OF rate_scope_coerced [of no_repr] matrix_key [of no_repr] ttl(1)
             opposing_rate [symmetric],
          where pred = "\<lambda>_ _ _ _ _. Inr (PBool True)"] p
  have 1: "should_suppress_write no_repr (pred_store (PBool True) (PDict [(''ts'', PInt 0)]))
             matrix rate_scope None None 200
           = (Inr True, [SuppressByKey ''tmdb:603'' ''ratings'' ''unrate'' 259200 None])"
    by (simp add: example_store_cfg)
  from capability_tiering
         [OF rate_scope_coerced [of no_repr] matrix_key [of no_repr] ttl(2)
             opposing_rate [symmetric],
          where f = "\<lambda>_ _ _ _. Inr PNone"] q
  have 2: "should_suppress_write no_repr (ts_store PNone) matrix rate_scope None None 200
           = (Inr False, [LastNegativeTs ''tmdb:603'' ''ratings'' ''unrate'' None])"
    by (simp add: example_store_cfg)
  from capability_tiering
         [OF rate_scope_coerced [of no_repr] matrix_key [of no_repr] ttl(3)
             opposing_rate [symmetric]] b
  have 3: "should_suppress_write no_repr bare_store matrix rate_scope None None 200
           = (Inr False, [])"
    by (simp add: example_store_cfg)
  from capability_tiering
         [OF rate_scope_coerced [of no_repr] matrix_key [of no_repr] ttl(2)
             opposing_rate [symmetric],
          where f = "\<lambda>_ _ _ _. Inr (PInt 100)" and v = "PInt 100"] u
  have 4: "should_suppress_write no_repr (ts_store (PInt 100)) matrix rate_scope None None 200
           = (Inr True, [LastNegativeTs ''tmdb:603'' ''ratings'' ''unrate'' None])"
    by (simp add: example_store_cfg timestamp_recent_def)
  from capability_tiering
         [OF rate_scope_coerced [of no_repr] matrix_key [of no_repr] ttl(4)
             opposing_rate [symmetric],
          where f = "\<lambda>_ _ _ _. Inr PNone"
            and g = "\<lambda>_ _ _ _. Inr (PDict [(''ts'', PInt 100)])"] w
  have 5: "should_suppress_write no_repr (fallthrough_store (PDict [(''ts'', PInt 100)])) matrix
             rate_scope None None 200
           = (Inr True,
              [LastNegativeTs ''tmdb:603'' ''ratings'' ''unrate'' None,
               GetRecord ''tmdb:603'' ''ratings'' ''unrate'' None])"
    by (simp add: example_store_cfg record_recent_def timestamp_recent_def)
  from 1 2 3 4 5 show ?thesis by simp
qed

text \<open>
  C4, as stated: a non-positive override is replaced by the configured TTL. A negative
  one is not: \<^verbatim>\<open>ttl_sec or ...\<close> keeps every non-zero override, so with an override
  of -5 the direct predicate is called with a TTL of -5, and a timestamp equal to the
  current time, which the configured TTL of three days would suppress, does not suppress.
\<close>

theorem negative_override_counterexample:
  "snd (should_suppress_write no_repr (pred_store (PBool True) PNone) matrix rate_scope None
          (Some (- 5)) 0)
   = [SuppressByKey ''tmdb:603'' ''ratings'' ''unrate'' (- 5) None]
   \<and> get_quarantine_ttl_sec (fst (cfg_from_store (pred_store (PBool True) PNone)))
       (Some ''ratings'') = Inr 259200
   \<and> fst (should_suppress_write no_repr (ts_store (PInt 1000)) matrix rate_scope None
            (Some (- 5)) 1000) = Inr False
   \<and> fst (should_suppress_write no_repr (ts_store (PInt 1000)) matrix rate_scope None
            None 1000) = Inr True"
  by (simp add: should_suppress_write_def try_block_def Let_def rate_scope_coerced matrix_key
      cfg_from_store_def resolve_ttl_def ratings_default_ttl opposing_rate
      timestamp_lookup_def generic_lookup_def recent_def pred_store_def ts_store_def
      bare_store_def)

text \<open>
  C4, amended: the TTL used for the decision is the supplied override whenever that is
  supplied and not zero (positive or negative); when the override is absent or zero it is
  \<open>get_quarantine_ttl_sec\<close> applied to the store's configuration and the scope's feature.
  That TTL is what the direct predicate is called with, and what \<open>now - int(ts)\<close> is
  compared with in the timestamp and record tiers.
\<close>

theorem ttl_used_for_decision:
  assumes "coerce_scope R scope = Inr (feat, wd)"
      and "canonical_key R entity = Inr key"
      and "ttl_sec = Some n \<and> n \<noteq> 0 \<and> ttl = n
           \<or> (ttl_sec = None \<or> ttl_sec = Some 0)
             \<and> get_quarantine_ttl_sec (fst (cfg_from_store s)) (Some feat) = Inr ttl"
      and "want = opposing (Some wd)"
  shows "(should_suppress_by_key s = Callable pred \<longrightarrow>
            should_suppress_write R s entity scope pair_id ttl_sec now
            = (Inr (case pred key feat want ttl pair_id of Inl e \<Rightarrow> False | Inr v \<Rightarrow> truthy v),
               snd (cfg_from_store s) @ [SuppressByKey key feat want ttl pair_id]))
       \<and> (unsupported (should_suppress_by_key s) \<and> last_negative_ts s = Callable f
            \<and> f key feat want pair_id = Inr v \<and> v \<noteq> PNone \<longrightarrow>
            fst (should_suppress_write R s entity scope pair_id ttl_sec now)
            = Inr (timestamp_recent now ttl v))
       \<and> (unsupported (should_suppress_by_key s)
            \<and> (unsupported (last_negative_ts s)
                \<or> last_negative_ts s = Callable f \<and> f key feat want pair_id = Inr PNone)
            \<and> get s = Callable g \<longrightarrow>
            fst (should_suppress_write R s entity scope pair_id ttl_sec now)
            = Inr (record_recent now ttl (g key feat want pair_id)))"
proof -
  have ttl: "resolve_ttl ttl_sec (fst (cfg_from_store s)) feat = Inr ttl"
    using assms(3) by (auto simp: resolve_ttl_cases)
  note lk = ssw_lookup [OF assms(1,2) ttl, of pair_id now, folded assms(4)]
  have t1: "should_suppress_write R s entity scope pair_id ttl_sec now
            = (Inr (case pred key feat want ttl pair_id of Inl e \<Rightarrow> False | Inr v \<Rightarrow> truthy v),
               snd (cfg_from_store s) @ [SuppressByKey key feat want ttl pair_id])"
    if "should_suppress_by_key s = Callable pred"
    using ssw_direct [OF assms(1,2) ttl that, of pair_id now] assms(4) by simp
  have t2: "fst (should_suppress_write R s entity scope pair_id ttl_sec now)
            = Inr (timestamp_recent now ttl v)"
    if "unsupported (should_suppress_by_key s)" "last_negative_ts s = Callable f"
       "f key feat want pair_id = Inr v" "v \<noteq> PNone"
    using that by (simp add: lk timestamp_value recent_decision)
  have t3: "fst (should_suppress_write R s entity scope pair_id ttl_sec now)
            = Inr (record_recent now ttl (g key feat want pair_id))"
    if "unsupported (should_suppress_by_key s)"
       "unsupported (last_negative_ts s)
        \<or> last_negative_ts s = Callable f \<and> f key feat want pair_id = Inr PNone"
       "get s = Callable g"
    using that by (auto simp: lk timestamp_unsupported timestamp_none generic_called)
  from t1 t2 t3 show ?thesis by blast
qed

theorem ttl_used_for_decision_witness:
  "should_suppress_write no_repr (pred_store (PBool True) PNone) matrix rate_scope None
     (Some 60) 0
   = (Inr True, [SuppressByKey ''tmdb:603'' ''ratings'' ''unrate'' 60 None])
   \<and> should_suppress_write no_repr (pred_store (PBool True) PNone) matrix rate_scope None
       (Some 0) 0
     = (Inr True, [SuppressByKey ''tmdb:603'' ''ratings'' ''unrate'' 259200 None])
   \<and> fst (should_suppress_write no_repr (ts_store (PInt 1000)) matrix rate_scope None
            (Some (- 5)) 1000) = Inr False"
proof -
  have p: "should_suppress_by_key (pred_store (PBool True) PNone)
           = Callable (\<lambda>_ _ _ _ _. Inr (PBool True))"
    by (simp add: pred_store_def bare_store_def)
  have a: "Some (60::int) = Some 60 \<and> (60::int) \<noteq> 0 \<and> (60::int) = 60
           \<or> (Some (60::int) = None \<or> Some (60::int) = Some 0)
             \<and> get_quarantine_ttl_sec (fst (cfg_from_store (pred_store (PBool True) PNone)))
                 (Some ''ratings'') = Inr 60"
    by simp
  have b: "Some (0::int) = Some 7 \<and> (7::int) \<noteq> 0 \<and> (259200::int) = 7
           \<or> (Some (0::int) = None \<or> Some (0::int) = Some 0)
             \<and> get_quarantine_ttl_sec (fst (cfg_from_store (pred_store (PBool True) PNone)))
                 (Some ''ratings'') = Inr 259200"
    by (simp add: example_store_cfg ratings_default_ttl)
  from ttl_used_for_decision
         [OF rate_scope_coerced [of no_repr] matrix_key [of no_repr] a opposing_rate [symmetric],
          where pred = "\<lambda>_ _ _ _ _. Inr (PBool True)"] p
  have 1: "should_suppress_write no_repr (pred_store (PBool True) PNone) matrix rate_scope None
             (Some 60) 0
           = (Inr True, [SuppressByKey ''tmdb:603'' ''ratings'' ''unrate'' 60 None])"
    by (simp add: example_store_cfg)
  from ttl_used_for_decision
         [OF rate_scope_coerced [of no_repr] matrix_key [of no_repr] b opposing_rate [symmetric],
          where pred = "\<lambda>_ _ _ _ _. Inr (PBool True)"] p
  have 2: "should_suppress_write no_repr (pred_store (PBool True) PNone) matrix rate_scope None
             (Some 0) 0
           = (Inr True, [SuppressByKey ''tmdb:603'' ''ratings'' ''unrate'' 259200 None])"
    by (simp add: example_store_cfg)
  have c: "Some (- 5 :: int) = Some (- 5) \<and> (- 5 :: int) \<noteq> 0 \<and> (- 5 :: int) = - 5
           \<or> (Some (- 5 :: int) = None \<or> Some (- 5 :: int) = Some 0)
             \<and> get_quarantine_ttl_sec (fst (cfg_from_store (ts_store (PInt 1000))))
                 (Some ''ratings'') = Inr (- 5)"
    by simp
  have u: "unsupported (should_suppress_by_key (ts_store (PInt 1000)))"
          "last_negative_ts (ts_store (PInt 1000)) = Callable (\<lambda>_ _ _ _. Inr (PInt 1000))"
    by (simp_all add: ts_store_def bare_store_def)
  from ttl_used_for_decision
         [OF rate_scope_coerced [of no_repr] matrix_key [of no_repr] c opposing_rate [symmetric],
          where f = "\<lambda>_ _ _ _. Inr (PInt 1000)" and v = "PInt 1000"] u
  have 3: "fst (should_suppress_write no_repr (ts_store (PInt 1000)) matrix rate_scope None
                  (Some (- 5)) 1000) = Inr False"
    by (simp add: timestamp_recent_def)
  from 1 2 3 show ?thesis by simp
qed



end
